theory Spec2Isabelle
  imports Main "HOL-Library.Product_Lexorder"
begin

section \<open>Tables of the Stack Overflow data set\<close>

text \<open>
  The module \<^verbatim>\<open>stack_overflow_data.py\<close> works on pandas data frames. A data frame is
  modelled as the list of its rows, in row order, and a row as a record of its columns.

  The question and the duplicate files are read with the columns
  \<^verbatim>\<open>Id, AnswerId, Text0, CreationDate\<close>, the answer file with \<^verbatim>\<open>Id, Text0\<close>;
  \<^verbatim>\<open>Id\<close> is the row label (the index) until \<^verbatim>\<open>reset_index\<close> turns it into an
  ordinary column. The field \<open>Id'\<close> stands for both (the name \<open>Id\<close> is the identity
  relation of HOL), and the fields of the answer table carry the suffix \<open>_a\<close>.
  Identifiers are integers. A text is a list of characters, one per code point, so that
  \<open>length\<close> is what \<^verbatim>\<open>.str.len()\<close> counts.
\<close>

record raw_row =
  Id' :: int
  AnswerId :: int
  Text0 :: string
  CreationDate :: string

record row = raw_row +
  Text :: string

record raw_answer =
  Id_a :: int
  Text0_a :: string

record answer = raw_answer +
  Text_a :: string

text \<open>
  Exceptions are values. An exception raised by a statement of the module carries the
  number of its source line; \<open>CollaboratorError\<close> is whatever an imported function
  (\<^verbatim>\<open>read_csv_gz\<close>, \<^verbatim>\<open>round_sample_strat\<close>, \<^verbatim>\<open>random_merge\<close>, \<^verbatim>\<open>pd.read_csv\<close>)
  raises.
\<close>

datatype error =
    AssertionError nat
  | IndexError nat
  | KeyError nat
  | ZeroDivisionError nat
  | FileNotFoundError nat
  | FileExistsError nat
  | IsADirectoryError nat
  | CollaboratorError string

section \<open>\<^verbatim>\<open>clean_data\<close>\<close>

text \<open>
  Line 81, \<^verbatim>\<open>df["Text"] = df.Text0.apply(clean_text).str.lower()\<close>: the new column.
  \<^verbatim>\<open>clean_text\<close> is imported from \<^verbatim>\<open>azure_utils.utilities\<close> and \<^verbatim>\<open>str.lower\<close> is
  Python's; both are parameters of the model.
\<close>

definition add_text :: "(string \<Rightarrow> string) \<Rightarrow> (string \<Rightarrow> string) \<Rightarrow> raw_row \<Rightarrow> row" where
  "add_text clean_text lower r =
     \<lparr>Id' = Id' r, AnswerId = AnswerId r, Text0 = Text0 r, CreationDate = CreationDate r,
      Text = lower (clean_text (Text0 r))\<rparr>"

definition add_text_a :: "(string \<Rightarrow> string) \<Rightarrow> (string \<Rightarrow> string) \<Rightarrow> raw_answer \<Rightarrow> answer" where
  "add_text_a clean_text lower r =
     \<lparr>Id_a = Id_a r, Text0_a = Text0_a r, Text_a = lower (clean_text (Text0_a r))\<rparr>"

text \<open>Lines 80 to 84: add the column, then keep the rows whose \<^verbatim>\<open>Text\<close> is not empty.\<close>

definition text_rows :: "(string \<Rightarrow> string) \<Rightarrow> (string \<Rightarrow> string) \<Rightarrow> raw_row list \<Rightarrow> row list" where
  "text_rows clean_text lower df =
     filter (\<lambda>r. 0 < length (Text r)) (map (add_text clean_text lower) df)"

definition text_answers ::
  "(string \<Rightarrow> string) \<Rightarrow> (string \<Rightarrow> string) \<Rightarrow> raw_answer list \<Rightarrow> answer list" where
  "text_answers clean_text lower df =
     filter (\<lambda>r. 0 < length (Text_a r)) (map (add_text_a clean_text lower) df)"

text \<open>
  \<^verbatim>\<open>df[~df.index.duplicated(keep='first')]\<close>: a row stays unless its label has been seen
  in an earlier row. \<open>seen\<close> holds the labels met so far.
\<close>

fun drop_duplicated :: "('r \<Rightarrow> 'k) \<Rightarrow> 'k list \<Rightarrow> 'r list \<Rightarrow> 'r list" where
  "drop_duplicated key seen [] = []"
| "drop_duplicated key seen (r # rs) =
     (if key r \<in> set seen then drop_duplicated key seen rs
      else r # drop_duplicated key (key r # seen) rs)"

text \<open>
  Lines 82 to 95, without the printing: the three tables as they are handed to
  \<^verbatim>\<open>verify_data_integrity\<close> and, after \<^verbatim>\<open>reset_index\<close>, to the rest of the function.
  Each \<open>let\<close> is one assignment of the source, in its order.
\<close>

definition closed_tables ::
  "(string \<Rightarrow> string) \<Rightarrow> (string \<Rightarrow> string) \<Rightarrow> raw_answer list \<Rightarrow> raw_row list \<Rightarrow> raw_row list
     \<Rightarrow> answer list \<times> row list \<times> row list" where
  "closed_tables clean_text lower answers0 dupes0 questions0 =
     (let questions = text_rows clean_text lower questions0;
          answers = text_answers clean_text lower answers0;
          dupes = text_rows clean_text lower dupes0;
          dupes = filter (\<lambda>d. Id' d \<notin> set (map Id' questions)) dupes;
          questions = drop_duplicated Id' [] questions;
          dupes = drop_duplicated Id' [] dupes;
          questions = filter (\<lambda>q. AnswerId q \<in> set (map Id_a answers)
                                 \<and> AnswerId q \<in> set (map AnswerId dupes)) questions;
          answers = filter (\<lambda>a. Id_a a \<in> set (map AnswerId questions)) answers;
          dupes = filter (\<lambda>d. AnswerId d \<in> set (map AnswerId questions)) dupes
      in (answers, dupes, questions))"

text \<open>Lines 162 to 167: four assertions, checked in order.\<close>

definition verify_data_integrity :: "answer list \<Rightarrow> row list \<Rightarrow> row list \<Rightarrow> error + unit" where
  "verify_data_integrity answers dupes questions =
     (if \<not> list_all (\<lambda>q. AnswerId q \<in> set (map Id_a answers)) questions
        then Inl (AssertionError 164)
      else if \<not> list_all (\<lambda>a. Id_a a \<in> set (map AnswerId questions)) answers
        then Inl (AssertionError 165)
      else if \<not> list_all (\<lambda>q. AnswerId q \<in> set (map AnswerId dupes)) questions
        then Inl (AssertionError 166)
      else if \<not> list_all (\<lambda>d. AnswerId d \<in> set (map AnswerId questions)) dupes
        then Inl (AssertionError 167)
      else Inr ())"

text \<open>
  Line 120, \<^verbatim>\<open>dupes.groupby(label_column)[label_column].count()\<close>: one entry per
  value of the column, in ascending order of the value, with the number of rows that
  carry it.
\<close>

definition groupby_count :: "int list \<Rightarrow> (int \<times> nat) list" where
  "groupby_count xs = map (\<lambda>a. (a, count_list xs a)) (sort (remdups xs))"

text \<open>Lines 113 to 123: the minimum text length, the closure, the minimum number of dupes.\<close>

definition restricted_tables :: "int \<Rightarrow> int \<Rightarrow> row list \<Rightarrow> row list \<Rightarrow> row list \<times> row list" where
  "restricted_tables min_dupes min_text dupes0 questions0 =
     (let questions = filter (\<lambda>q. min_text \<le> int (length (Text q))) questions0;
          dupes = filter (\<lambda>d. min_text \<le> int (length (Text d))) dupes0;
          questions = filter (\<lambda>q. AnswerId q \<in> set (map AnswerId dupes)) questions;
          dupes = filter (\<lambda>d. AnswerId d \<in> set (map AnswerId questions)) dupes;
          answerid_count = groupby_count (map AnswerId dupes);
          answerid_min = map fst (filter (\<lambda>(a, c). min_dupes \<le> int c) answerid_count);
          questions = filter (\<lambda>q. AnswerId q \<in> set answerid_min) questions;
          dupes = filter (\<lambda>d. AnswerId d \<in> set answerid_min) dupes
      in (dupes, questions))"

text \<open>
  The whole function, lines 79 to 138. Standard output is not part of the model, but
  the statements that can raise while printing are: \<^verbatim>\<open>questions.iloc[0, 1]\<close> (line 86)
  raises \<^verbatim>\<open>IndexError\<close> on a table without rows, and the largest-class share of lines
  107 and 137 divides the maximum of an empty series of counts, the float \<^verbatim>\<open>nan\<close>, by
  \<^verbatim>\<open>dupes.shape[0] = 0\<close>, which raises \<^verbatim>\<open>ZeroDivisionError\<close>. The other statistics
  (\<^verbatim>\<open>describe\<close>, \<^verbatim>\<open>value_counts\<close>) are defined on empty tables.
\<close>

definition clean_data ::
  "(string \<Rightarrow> string) \<Rightarrow> (string \<Rightarrow> string) \<Rightarrow> raw_answer list \<Rightarrow> raw_row list \<Rightarrow> int \<Rightarrow> int
     \<Rightarrow> raw_row list \<Rightarrow> bool \<Rightarrow> error + (row list \<times> string \<times> row list)" where
  "clean_data clean_text lower answers0 dupes0 min_dupes min_text questions0 show_output =
     (if show_output \<and> text_rows clean_text lower questions0 = [] then Inl (IndexError 86)
      else
        case closed_tables clean_text lower answers0 dupes0 questions0 of
          (answers, dupes, questions) \<Rightarrow>
            (case verify_data_integrity answers dupes questions of
               Inl e \<Rightarrow> Inl e
             | Inr _ \<Rightarrow>
                 if show_output \<and> dupes = [] then Inl (ZeroDivisionError 107)
                 else
                   case restricted_tables min_dupes min_text dupes questions of
                     (dupes, questions) \<Rightarrow>
                       if \<not> list_all (\<lambda>q. AnswerId q \<in> set (map AnswerId dupes)) questions
                         then Inl (AssertionError 125)
                       else if \<not> list_all (\<lambda>d. AnswerId d \<in> set (map AnswerId questions)) dupes
                         then Inl (AssertionError 126)
                       else if show_output \<and> dupes = [] then Inl (ZeroDivisionError 137)
                       else Inr (dupes, ''AnswerId'', questions)))"

section \<open>\<^verbatim>\<open>split_duplicates\<close>\<close>

text \<open>
  \<^verbatim>\<open>dupes[label_column]\<close> looks a column up by its name and raises \<^verbatim>\<open>KeyError\<close> for a
  name the table does not have. After \<^verbatim>\<open>reset_index\<close> the columns are
  \<^verbatim>\<open>Id, AnswerId, Text0, CreationDate, Text\<close>.
\<close>

datatype cell = IntCell int | StrCell string

definition column :: "string \<Rightarrow> (row \<Rightarrow> cell) option" where
  "column c =
     (if c = ''Id'' then Some (\<lambda>r. IntCell (Id' r))
      else if c = ''AnswerId'' then Some (\<lambda>r. IntCell (AnswerId r))
      else if c = ''Text0'' then Some (\<lambda>r. StrCell (Text0 r))
      else if c = ''CreationDate'' then Some (\<lambda>r. StrCell (CreationDate r))
      else if c = ''Text'' then Some (\<lambda>r. StrCell (Text r))
      else None)"

text \<open>\<^verbatim>\<open>Series.unique()\<close>: the distinct values, in the order of their first appearance.\<close>

definition unique :: "'a list \<Rightarrow> 'a list" where
  "unique xs = rev (remdups (rev xs))"

text \<open>
  \<^verbatim>\<open>random_merge\<close> is imported; of its result the module uses the columns named in
  \<^verbatim>\<open>balanced_pairs_columns\<close> (line 53) apart from \<^verbatim>\<open>Label\<close>, which it adds itself. A row
  of the result is a \<open>merged\<close> record, whose extension part holds whatever other columns
  the merge produced; the column \<^verbatim>\<open>n\<close> is the field \<open>n_col\<close>.
\<close>

record merged =
  Id_x :: int
  AnswerId_x :: int
  Text_x :: string
  Id_y :: int
  Text_y :: string
  AnswerId_y :: int
  n_col :: int

record pair = merged +
  Label :: int

text \<open>
  Lines 57 and 59 (65 and 67): the label \<^verbatim>\<open>(AnswerId_x == AnswerId_y).astype(int)\<close>, then
  the projection to the eight columns.
\<close>

definition label_pair :: "'m merged_scheme \<Rightarrow> pair" where
  "label_pair m =
     \<lparr>Id_x = Id_x m, AnswerId_x = AnswerId_x m, Text_x = Text_x m, Id_y = Id_y m,
      Text_y = Text_y m, AnswerId_y = AnswerId_y m, n_col = n_col m,
      Label = (if AnswerId_x m = AnswerId_y m then 1 else 0)\<rparr>"

text \<open>
  Lines 61 and 69, \<^verbatim>\<open>sort_values(by=['Id_x', 'Label'], ascending=[True, False])\<close>: a
  stable sort on the key \<open>(Id_x, - Label)\<close>, pairs being ordered lexicographically.
\<close>

definition sort_values :: "pair list \<Rightarrow> pair list" where
  "sort_values df = sort_key (\<lambda>p. (Id_x p, - Label p)) df"

text \<open>Line 50, \<^verbatim>\<open>dupes[~dupes.Id.isin(dupes_test.Id)]\<close>.\<close>

definition dupes_train_rows :: "row list \<Rightarrow> row list \<Rightarrow> row list" where
  "dupes_train_rows dupes dupes_test = filter (\<lambda>d. Id' d \<notin> set (map Id' dupes_test)) dupes"

text \<open>
  Lines 48 to 76. The sampler \<^verbatim>\<open>round_sample_strat\<close> and \<^verbatim>\<open>random_merge\<close> are
  parameters: any function may stand for them, and each may raise. \<^verbatim>\<open>test_size\<close> is
  only handed to the sampler, so its type is left open. The report of lines 71 to 75
  prints and raises nothing.
\<close>

definition split_duplicates ::
  "(row list \<Rightarrow> cell list \<Rightarrow> 'f \<Rightarrow> error + row list)
     \<Rightarrow> (row list \<Rightarrow> row list \<Rightarrow> int \<Rightarrow> error + 'm merged_scheme list)
     \<Rightarrow> row list \<Rightarrow> string \<Rightarrow> int \<Rightarrow> row list \<Rightarrow> bool \<Rightarrow> 'f
     \<Rightarrow> error + (pair list \<times> pair list \<times> row list)" where
  "split_duplicates round_sample_strat random_merge dupes label_column match questions
       show_output test_size =
     (case column label_column of
        None \<Rightarrow> Inl (KeyError 49)
      | Some col \<Rightarrow>
          (case round_sample_strat dupes (map col dupes) test_size of
             Inl e \<Rightarrow> Inl e
           | Inr dupes_test \<Rightarrow>
               let dupes_train = dupes_train_rows dupes dupes_test in
               if length (unique (map col dupes_test)) \<noteq> length (unique (map col dupes))
                 then Inl (AssertionError 51)
               else
                 (case random_merge dupes_train questions match of
                    Inl e \<Rightarrow> Inl e
                  | Inr merged_train \<Rightarrow>
                      let balanced_pairs_train = sort_values (map label_pair merged_train) in
                      (case random_merge dupes_test questions (int (length questions)) of
                         Inl e \<Rightarrow> Inl e
                       | Inr merged_test \<Rightarrow>
                           let balanced_pairs_test = sort_values (map label_pair merged_test)
                           in Inr (balanced_pairs_test, balanced_pairs_train, dupes_test)))))"

section \<open>Files, the network and \<^verbatim>\<open>create_stack_overflow_data\<close>\<close>

text \<open>
  What the module can see and change outside its own memory: the regular files (path to
  contents), the directories, and the URLs it has requested, in order. Failures of the
  operating system other than the ones written out below are not modelled.
\<close>

record world =
  files :: "string \<rightharpoonup> string"
  dirs :: "string set"
  fetched :: "string list"

text \<open>
  The imported functions that read and write tables, and the imported constant
  \<^verbatim>\<open>directory\<close>. \<^verbatim>\<open>read_csv_gz\<close> maps a URL to the parsed table (one field per set of
  column names it is called with), \<^verbatim>\<open>pd.read_csv\<close> parses the contents of a file and
  \<^verbatim>\<open>to_csv\<close> renders a table as the contents of a file.
\<close>

record io =
  directory :: string
  read_csv_gz_rows :: "string \<Rightarrow> error + raw_row list"
  read_csv_gz_answers :: "string \<Rightarrow> error + raw_answer list"
  read_csv :: "string \<Rightarrow> error + row list"
  to_csv_rows :: "row list \<Rightarrow> string"
  to_csv_pairs :: "pair list \<Rightarrow> string"

definition isfile :: "world \<Rightarrow> string \<Rightarrow> bool" where
  "isfile w p = (files w p \<noteq> None)"

text \<open>\<^verbatim>\<open>os.path.join\<close> of two components, as \<^verbatim>\<open>posixpath\<close> has it.\<close>

definition path_join :: "string \<Rightarrow> string \<Rightarrow> string" where
  "path_join a b =
     (if b \<noteq> [] \<and> hd b = CHR ''/'' then b
      else if a = [] \<or> last a = CHR ''/'' then a @ b
      else a @ ''/'' @ b)"

definition pd_read_csv :: "io \<Rightarrow> nat \<Rightarrow> world \<Rightarrow> string \<Rightarrow> error + row list" where
  "pd_read_csv c line w p =
     (case files w p of None \<Rightarrow> Inl (FileNotFoundError line) | Some s \<Rightarrow> read_csv c s)"

text \<open>\<^verbatim>\<open>os.makedirs(path, exist_ok=True)\<close> and \<^verbatim>\<open>df.to_csv(path, ...)\<close>.\<close>

definition makedirs :: "nat \<Rightarrow> string \<Rightarrow> world \<Rightarrow> (error + unit) \<times> world" where
  "makedirs line p w =
     (if isfile w p then (Inl (FileExistsError line), w)
      else (Inr (), w\<lparr>dirs := insert p (dirs w)\<rparr>))"

definition write_file :: "nat \<Rightarrow> string \<Rightarrow> string \<Rightarrow> world \<Rightarrow> (error + unit) \<times> world" where
  "write_file line p s w =
     (if p \<in> dirs w then (Inl (IsADirectoryError line), w)
      else (Inr (), w\<lparr>files := (files w)(p \<mapsto> s)\<rparr>))"

text \<open>Lines 141 to 159. The files written before a failure stay written.\<close>

definition save_data ::
  "io \<Rightarrow> pair list \<Rightarrow> pair list \<Rightarrow> row list \<Rightarrow> string \<Rightarrow> string \<Rightarrow> row list \<Rightarrow> string \<Rightarrow> bool
     \<Rightarrow> world \<Rightarrow> (error + unit) \<times> world" where
  "save_data c balanced_pairs_test balanced_pairs_train dupes_test dupes_test_path outputs_path
       questions questions_path show_output w =
     (case makedirs 143 outputs_path w of
        (Inl e, w) \<Rightarrow> (Inl e, w)
      | (Inr _, w) \<Rightarrow>
          let balanced_pairs_train_path = path_join outputs_path ''balanced_pairs_train.tsv'' in
          (case write_file 148 balanced_pairs_train_path (to_csv_pairs c balanced_pairs_train) w of
             (Inl e, w) \<Rightarrow> (Inl e, w)
           | (Inr _, w) \<Rightarrow>
               let balanced_pairs_test_path = path_join outputs_path ''balanced_pairs_test.tsv'' in
               (case write_file 151 balanced_pairs_test_path (to_csv_pairs c balanced_pairs_test) w of
                  (Inl e, w) \<Rightarrow> (Inl e, w)
                | (Inr _, w) \<Rightarrow>
                    (case write_file 155 questions_path (to_csv_rows c questions) w of
                       (Inl e, w) \<Rightarrow> (Inl e, w)
                     | (Inr _, w) \<Rightarrow>
                         write_file 159 dupes_test_path (to_csv_rows c dupes_test) w))))"

text \<open>
  Lines 170 to 187. Every call of \<^verbatim>\<open>read_csv_gz\<close> is a request, recorded whether it
  succeeds or not. With \<^verbatim>\<open>show_output\<close>, \<^verbatim>\<open>questions.iloc[0, 1]\<close> raises on a table
  without rows and \<^verbatim>\<open>answers.at[questions.iloc[0, 0], 'Text0']\<close> raises when no answer is
  labelled with the first question's \<^verbatim>\<open>AnswerId\<close>.
\<close>

definition data_url :: "string \<Rightarrow> string" where
  "data_url name = ''https://bostondata.blob.core.windows.net/stackoverflow/'' @ name"

definition request :: "string \<Rightarrow> world \<Rightarrow> world" where
  "request url w = w\<lparr>fetched := fetched w @ [url]\<rparr>"

definition download_datasets ::
  "io \<Rightarrow> bool \<Rightarrow> world \<Rightarrow> (error + (raw_answer list \<times> raw_row list \<times> raw_row list)) \<times> world" where
  "download_datasets c show_output w =
     (let questions_url = data_url ''orig-q.tsv.gz'';
          dupes_url = data_url ''dup-q.tsv.gz'';
          answers_url = data_url ''ans.tsv.gz'';
          w = request questions_url w
      in case read_csv_gz_rows c questions_url of
           Inl e \<Rightarrow> (Inl e, w)
         | Inr questions \<Rightarrow>
             let w = request dupes_url w
             in case read_csv_gz_rows c dupes_url of
                  Inl e \<Rightarrow> (Inl e, w)
                | Inr dupes \<Rightarrow>
                    let w = request answers_url w
                    in case read_csv_gz_answers c answers_url of
                         Inl e \<Rightarrow> (Inl e, w)
                       | Inr answers \<Rightarrow>
                           if show_output then
                             (case questions of
                                [] \<Rightarrow> (Inl (IndexError 183), w)
                              | q # _ \<Rightarrow>
                                  if AnswerId q \<notin> set (map Id_a answers)
                                    then (Inl (KeyError 185), w)
                                  else (Inr (answers, dupes, questions), w))
                           else (Inr (answers, dupes, questions), w))"

text \<open>Lines 15 to 45.\<close>

definition create_stack_overflow_data ::
  "io \<Rightarrow> (string \<Rightarrow> string) \<Rightarrow> (string \<Rightarrow> string)
     \<Rightarrow> (row list \<Rightarrow> cell list \<Rightarrow> 'f \<Rightarrow> error + row list)
     \<Rightarrow> (row list \<Rightarrow> row list \<Rightarrow> int \<Rightarrow> error + 'm merged_scheme list)
     \<Rightarrow> 'f \<Rightarrow> int \<Rightarrow> int \<Rightarrow> int \<Rightarrow> bool \<Rightarrow> world
     \<Rightarrow> (error + (row list \<times> row list)) \<times> world" where
  "create_stack_overflow_data c clean_text lower round_sample_strat random_merge
       test_size min_text min_dupes match show_output w =
     (let outputs_path = directory c @ ''/data_folder'';
          dupes_test_path = path_join outputs_path ''dupes_test.tsv'';
          questions_path = path_join outputs_path ''questions.tsv''
      in
        if isfile w dupes_test_path \<and> isfile w questions_path then
          (case pd_read_csv c 31 w questions_path of
             Inl e \<Rightarrow> (Inl e, w)
           | Inr questions \<Rightarrow>
               (case pd_read_csv c 31 w dupes_test_path of
                  Inl e \<Rightarrow> (Inl e, w)
                | Inr dupes_test \<Rightarrow> (Inr (questions, dupes_test), w)))
        else
          (case download_datasets c show_output w of
             (Inl e, w) \<Rightarrow> (Inl e, w)
           | (Inr (answers, dupes, questions), w) \<Rightarrow>
               (case clean_data clean_text lower answers dupes min_dupes min_text questions
                       show_output of
                  Inl e \<Rightarrow> (Inl e, w)
                | Inr (dupes, label_column, questions) \<Rightarrow>
                    (case split_duplicates round_sample_strat random_merge dupes label_column
                            match questions show_output test_size of
                       Inl e \<Rightarrow> (Inl e, w)
                     | Inr (balanced_pairs_test, balanced_pairs_train, dupes_test) \<Rightarrow>
                         (case save_data c balanced_pairs_test balanced_pairs_train dupes_test
                                 dupes_test_path outputs_path questions questions_path
                                 show_output w of
                            (Inl e, w) \<Rightarrow> (Inl e, w)
                          | (Inr _, w) \<Rightarrow> (Inr (questions, dupes_test), w))))))"

section \<open>A small data set\<close>

text \<open>
  Three answers (two of them under the same \<^verbatim>\<open>Id\<close>), four question rows (three under
  the same \<^verbatim>\<open>Id\<close>, the first of them without text) and eight duplicate rows. They are
  the concrete input on which the theorems below are instantiated.
\<close>

definition ex_answers :: "raw_answer list" where
  "ex_answers =
     [\<lparr>Id_a = 100, Text0_a = ''Use Y.''\<rparr>,
      \<lparr>Id_a = 100, Text0_a = ''Use Z.''\<rparr>,
      \<lparr>Id_a = 200, Text0_a = ''No.''\<rparr>]"

definition ex_questions :: "raw_row list" where
  "ex_questions =
     [\<lparr>Id' = 1, AnswerId = 100, Text0 = [], CreationDate = ''2019-01-01''\<rparr>,
      \<lparr>Id' = 1, AnswerId = 100, Text0 = ''What is X?'', CreationDate = ''2019-01-02''\<rparr>,
      \<lparr>Id' = 2, AnswerId = 200, Text0 = ''Why is Z so?'', CreationDate = ''2019-01-03''\<rparr>,
      \<lparr>Id' = 1, AnswerId = 100, Text0 = ''What was X?'', CreationDate = ''2019-01-04''\<rparr>]"

definition ex_dupes :: "raw_row list" where
  "ex_dupes =
     [\<lparr>Id' = 5, AnswerId = 100, Text0 = ''What is X?'', CreationDate = ''2019-02-01''\<rparr>,
      \<lparr>Id' = 6, AnswerId = 100, Text0 = ''X, what is it?'', CreationDate = ''2019-02-02''\<rparr>,
      \<lparr>Id' = 5, AnswerId = 100, Text0 = ''What is X again?'', CreationDate = ''2019-02-03''\<rparr>,
      \<lparr>Id' = 1, AnswerId = 100, Text0 = ''A dupe that is a question'', CreationDate = ''2019-02-04''\<rparr>,
      \<lparr>Id' = 7, AnswerId = 200, Text0 = ''Why Z?'', CreationDate = ''2019-02-05''\<rparr>,
      \<lparr>Id' = 8, AnswerId = 200, Text0 = ''Why is Z so?!'', CreationDate = ''2019-02-06''\<rparr>,
      \<lparr>Id' = 9, AnswerId = 200, Text0 = ''Z: why is it so?'', CreationDate = ''2019-02-07''\<rparr>,
      \<lparr>Id' = 10, AnswerId = 300, Text0 = ''Unanswered'', CreationDate = ''2019-02-08''\<rparr>]"

text \<open>The cleaned rows this input leads to with \<open>min_text = 10\<close> and \<open>min_dupes = 2\<close>.\<close>

definition ex_q1 :: row where
  "ex_q1 = \<lparr>Id' = 1, AnswerId = 100, Text0 = ''What is X?'', CreationDate = ''2019-01-02'',
            Text = ''What is X?''\<rparr>"

definition ex_q2 :: row where
  "ex_q2 = \<lparr>Id' = 2, AnswerId = 200, Text0 = ''Why is Z so?'', CreationDate = ''2019-01-03'',
            Text = ''Why is Z so?''\<rparr>"

definition ex_d5 :: row where
  "ex_d5 = \<lparr>Id' = 5, AnswerId = 100, Text0 = ''What is X?'', CreationDate = ''2019-02-01'',
            Text = ''What is X?''\<rparr>"

definition ex_d6 :: row where
  "ex_d6 = \<lparr>Id' = 6, AnswerId = 100, Text0 = ''X, what is it?'', CreationDate = ''2019-02-02'',
            Text = ''X, what is it?''\<rparr>"

definition ex_d8 :: row where
  "ex_d8 = \<lparr>Id' = 8, AnswerId = 200, Text0 = ''Why is Z so?!'', CreationDate = ''2019-02-06'',
            Text = ''Why is Z so?!''\<rparr>"

definition ex_d9 :: row where
  "ex_d9 = \<lparr>Id' = 9, AnswerId = 200, Text0 = ''Z: why is it so?'', CreationDate = ''2019-02-07'',
            Text = ''Z: why is it so?''\<rparr>"

text \<open>
  Stand-ins for the imported functions: a text cleaner and a lower-casing that leave the
  (already clean) texts as they are, a sampler that picks the rows 5 and 8 of its
  input, a merge that pairs every dupe with every question, and an \<open>io\<close> that serves the
  data set above. \<open>ex_pair d q l\<close> is the row that pairs the dupe \<open>d\<close> with the question
  \<open>q\<close> under the label \<open>l\<close>.
\<close>

definition ex_clean_text :: "string \<Rightarrow> string" where
  "ex_clean_text s = s"

definition ex_lower :: "string \<Rightarrow> string" where
  "ex_lower s = s"

definition ex_sampler :: "row list \<Rightarrow> cell list \<Rightarrow> unit \<Rightarrow> error + row list" where
  "ex_sampler df strat frac = Inr (filter (\<lambda>r. Id' r = 5 \<or> Id' r = 8) df)"

definition ex_merge :: "row list \<Rightarrow> row list \<Rightarrow> int \<Rightarrow> error + merged list" where
  "ex_merge A B N =
     Inr (concat (map (\<lambda>q. map (\<lambda>d.
            \<lparr>Id_x = Id' d, AnswerId_x = AnswerId d, Text_x = Text d, Id_y = Id' q,
             Text_y = Text q, AnswerId_y = AnswerId q, n_col = 0\<rparr>) A) B))"

definition ex_pair :: "row \<Rightarrow> row \<Rightarrow> int \<Rightarrow> pair" where
  "ex_pair d q l =
     \<lparr>Id_x = Id' d, AnswerId_x = AnswerId d, Text_x = Text d, Id_y = Id' q,
      Text_y = Text q, AnswerId_y = AnswerId q, n_col = 0, Label = l\<rparr>"

definition ex_io :: io where
  "ex_io =
     \<lparr>directory = ''/tmp'',
      read_csv_gz_rows = (\<lambda>url. if url = data_url ''orig-q.tsv.gz'' then Inr ex_questions
                                 else Inr ex_dupes),
      read_csv_gz_answers = (\<lambda>url. Inr ex_answers),
      read_csv = (\<lambda>s. if s = ''q'' then Inr [ex_q1, ex_q2] else Inr [ex_d5, ex_d8]),
      to_csv_rows = (\<lambda>df. if df = [ex_q1, ex_q2] then ''q'' else ''d''),
      to_csv_pairs = (\<lambda>df. ''p'')\<rparr>"

definition ex_world_empty :: world where
  "ex_world_empty = \<lparr>files = Map.empty, dirs = {}, fetched = []\<rparr>"

definition ex_world_cached :: world where
  "ex_world_cached =
     \<lparr>files = [''/tmp/data_folder/questions.tsv'' \<mapsto> ''q'',
               ''/tmp/data_folder/dupes_test.tsv'' \<mapsto> ''d''],
      dirs = {''/tmp/data_folder''}, fetched = []\<rparr>"

section \<open>Properties of \<^verbatim>\<open>clean_data\<close>\<close>

subsection \<open>Auxiliary facts\<close>

lemma set_drop_duplicated_subset: "set (drop_duplicated key seen rs) \<subseteq> set rs"
  by (induction rs arbitrary: seen) auto

lemma drop_duplicated_keys:
  "key ` set (drop_duplicated key seen rs) = key ` set rs - set seen"
  by (induction rs arbitrary: seen) auto

lemma distinct_drop_duplicated: "distinct (map key (drop_duplicated key seen rs))"
  by (induction rs arbitrary: seen) (auto simp: drop_duplicated_keys)

lemma drop_duplicated_first:
  "r \<in> set (drop_duplicated key seen rs) \<Longrightarrow> find (\<lambda>r'. key r' = key r) rs = Some r"
proof (induction rs arbitrary: seen)
  case Nil
  then show ?case by simp
next
  case (Cons a rs)
  show ?case
  proof (cases "key a \<in> set seen")
    case True
    with Cons.prems have in_rest: "r \<in> set (drop_duplicated key seen rs)" by simp
    then have "key r \<in> key ` set (drop_duplicated key seen rs)" by blast
    then have "key r \<notin> set seen" by (simp add: drop_duplicated_keys)
    with True have "key a \<noteq> key r" by auto
    with Cons.IH [OF in_rest] show ?thesis by simp
  next
    case False
    with Cons.prems consider "r = a" | "r \<in> set (drop_duplicated key (key a # seen) rs)"
      by auto
    then show ?thesis
    proof cases
      case 1
      then show ?thesis by simp
    next
      case 2
      then have "key r \<in> key ` set (drop_duplicated key (key a # seen) rs)" by blast
      then have "key a \<noteq> key r" by (auto simp: drop_duplicated_keys)
      with Cons.IH [OF 2] show ?thesis by simp
    qed
  qed
qed

lemma restricted_tables_eq:
  assumes "restricted_tables min_dupes min_text dupes0 questions0 = (dupes, questions)"
  defines "Q1 \<equiv> filter (\<lambda>q. min_text \<le> int (length (Text q))) questions0"
      and "D1 \<equiv> filter (\<lambda>d. min_text \<le> int (length (Text d))) dupes0"
  defines "Q2 \<equiv> filter (\<lambda>q. AnswerId q \<in> set (map AnswerId D1)) Q1"
  defines "D2 \<equiv> filter (\<lambda>d. AnswerId d \<in> set (map AnswerId Q2)) D1"
  defines "M \<equiv> map fst (filter (\<lambda>(a, c). min_dupes \<le> int c) (groupby_count (map AnswerId D2)))"
  shows "questions = filter (\<lambda>q. AnswerId q \<in> set M) Q2"
    and "dupes = filter (\<lambda>d. AnswerId d \<in> set M) D2"
  using assms(1) [symmetric] unfolding restricted_tables_def Let_def Q1_def D1_def Q2_def D2_def M_def
  by (simp_all only: prod.inject)

lemma answerid_min_iff:
  "a \<in> set (map fst (filter (\<lambda>(a, c). min_dupes \<le> int c) (groupby_count xs)))
     \<longleftrightarrow> a \<in> set xs \<and> min_dupes \<le> int (count_list xs a)"
  by (simp add: groupby_count_def filter_map o_def)

lemma restricted_tables_subset:
  assumes "restricted_tables min_dupes min_text dupes0 questions0 = (dupes, questions)"
  shows "set dupes \<subseteq> {d \<in> set dupes0. min_text \<le> int (length (Text d))}"
    and "set questions \<subseteq> {q \<in> set questions0. min_text \<le> int (length (Text q))}"
proof -
  show "set dupes \<subseteq> {d \<in> set dupes0. min_text \<le> int (length (Text d))}"
    unfolding restricted_tables_eq(2) [OF assms] by auto
  show "set questions \<subseteq> {q \<in> set questions0. min_text \<le> int (length (Text q))}"
    unfolding restricted_tables_eq(1) [OF assms] by auto
qed

lemma restricted_tables_sublist:
  assumes "restricted_tables min_dupes min_text dupes0 questions0 = (dupes, questions)"
  shows "\<exists>P. dupes = filter P dupes0" and "\<exists>P. questions = filter P questions0"
proof -
  show "\<exists>P. dupes = filter P dupes0"
    unfolding restricted_tables_eq(2) [OF assms] filter_filter by blast
  show "\<exists>P. questions = filter P questions0"
    unfolding restricted_tables_eq(1) [OF assms] filter_filter by blast
qed

lemma count_list_map_filter:
  "count_list (map f (filter (\<lambda>x. f x \<in> S) xs)) a = (if a \<in> S then count_list (map f xs) a else 0)"
  by (induction xs) auto

lemma length_filter_eq_count_list:
  "length (filter (\<lambda>x. f x = a) xs) = count_list (map f xs) a"
  by (induction xs) auto

lemma set_map_filter_key:
  "set (map f (filter (\<lambda>x. f x \<in> S) xs)) = set (map f xs) \<inter> S"
  by auto

lemma restricted_tables_closed:
  assumes "restricted_tables min_dupes min_text dupes0 questions0 = (dupes, questions)"
  shows "set (map AnswerId questions) = set (map AnswerId dupes)"
proof -
  define Q1 where "Q1 = filter (\<lambda>q. min_text \<le> int (length (Text q))) questions0"
  define D1 where "D1 = filter (\<lambda>d. min_text \<le> int (length (Text d))) dupes0"
  define Q2 where "Q2 = filter (\<lambda>q. AnswerId q \<in> set (map AnswerId D1)) Q1"
  define D2 where "D2 = filter (\<lambda>d. AnswerId d \<in> set (map AnswerId Q2)) D1"
  define M where
    "M = map fst (filter (\<lambda>(a, c). min_dupes \<le> int c) (groupby_count (map AnswerId D2)))"
  have q: "questions = filter (\<lambda>q. AnswerId q \<in> set M) Q2"
    and d: "dupes = filter (\<lambda>d. AnswerId d \<in> set M) D2"
    unfolding M_def D2_def Q2_def D1_def Q1_def
    by (rule restricted_tables_eq [OF assms])+
  have "set (map AnswerId Q2) = set (map AnswerId D2)"
    unfolding D2_def Q2_def set_map_filter_key by blast
  then show ?thesis
    unfolding q d set_map_filter_key by simp
qed

lemma restricted_tables_count:
  assumes "restricted_tables min_dupes min_text dupes0 questions0 = (dupes, questions)"
      and "a \<in> set (map AnswerId dupes)"
  shows "min_dupes \<le> int (count_list (map AnswerId dupes) a)"
proof -
  define Q1 where "Q1 = filter (\<lambda>q. min_text \<le> int (length (Text q))) questions0"
  define D1 where "D1 = filter (\<lambda>d. min_text \<le> int (length (Text d))) dupes0"
  define Q2 where "Q2 = filter (\<lambda>q. AnswerId q \<in> set (map AnswerId D1)) Q1"
  define D2 where "D2 = filter (\<lambda>d. AnswerId d \<in> set (map AnswerId Q2)) D1"
  define M where
    "M = map fst (filter (\<lambda>(a, c). min_dupes \<le> int c) (groupby_count (map AnswerId D2)))"
  have d: "dupes = filter (\<lambda>d. AnswerId d \<in> set M) D2"
    unfolding M_def D2_def Q2_def D1_def Q1_def
    by (rule restricted_tables_eq [OF assms(1)])
  from assms(2) have m: "a \<in> set M"
    unfolding d by auto
  then have "min_dupes \<le> int (count_list (map AnswerId D2) a)"
    unfolding M_def answerid_min_iff by simp
  moreover have "count_list (map AnswerId dupes) a = count_list (map AnswerId D2) a"
    unfolding d using m by (simp add: count_list_map_filter)
  ultimately show ?thesis by simp
qed

lemma closed_tables_eq:
  assumes "closed_tables clean_text lower answers0 dupes0 questions0 = (answers, dupes, questions)"
  defines "Q \<equiv> drop_duplicated Id' [] (text_rows clean_text lower questions0)"
      and "D \<equiv> drop_duplicated Id' []
                 (filter (\<lambda>d. Id' d \<notin> set (map Id' (text_rows clean_text lower questions0)))
                    (text_rows clean_text lower dupes0))"
      and "A \<equiv> text_answers clean_text lower answers0"
  shows "questions = filter (\<lambda>q. AnswerId q \<in> set (map Id_a A)
                                 \<and> AnswerId q \<in> set (map AnswerId D)) Q"
    and "answers = filter (\<lambda>a. Id_a a \<in> set (map AnswerId questions)) A"
    and "dupes = filter (\<lambda>d. AnswerId d \<in> set (map AnswerId questions)) D"
  using assms(1) [symmetric] unfolding closed_tables_def Let_def Q_def D_def A_def
  by (simp_all only: prod.inject)

lemma closed_tables_subset:
  assumes "closed_tables clean_text lower answers0 dupes0 questions0 = (answers, dupes, questions)"
  shows "set dupes \<subseteq> set (text_rows clean_text lower dupes0)"
    and "set questions \<subseteq> set (text_rows clean_text lower questions0)"
    and "set answers \<subseteq> set (text_answers clean_text lower answers0)"
proof -
  have sub: "\<And>rs :: row list. set (drop_duplicated Id' [] rs) \<subseteq> set rs"
    by (rule set_drop_duplicated_subset)
  show "set dupes \<subseteq> set (text_rows clean_text lower dupes0)"
    unfolding closed_tables_eq(3) [OF assms] using sub by fastforce
  show "set questions \<subseteq> set (text_rows clean_text lower questions0)"
    unfolding closed_tables_eq(1) [OF assms] using sub by fastforce
  show "set answers \<subseteq> set (text_answers clean_text lower answers0)"
    unfolding closed_tables_eq(2) [OF assms] by simp
qed

lemma text_rows_Text:
  "r \<in> set (text_rows clean_text lower df) \<Longrightarrow> Text r = lower (clean_text (Text0 r)) \<and> Text r \<noteq> []"
  by (auto simp: text_rows_def add_text_def)

lemma clean_data_Inr:
  assumes "clean_data clean_text lower answers0 dupes0 min_dupes min_text questions0 show_output
             = Inr (dupes, label_column, questions)"
  shows "\<exists>answers1 dupes1 questions1.
           closed_tables clean_text lower answers0 dupes0 questions0 = (answers1, dupes1, questions1)
         \<and> verify_data_integrity answers1 dupes1 questions1 = Inr ()
         \<and> restricted_tables min_dupes min_text dupes1 questions1 = (dupes, questions)
         \<and> label_column = ''AnswerId''"
proof -
  obtain answers1 dupes1 questions1 where
    c: "closed_tables clean_text lower answers0 dupes0 questions0 = (answers1, dupes1, questions1)"
    by (cases "closed_tables clean_text lower answers0 dupes0 questions0") blast
  obtain dupes2 questions2 where
    r: "restricted_tables min_dupes min_text dupes1 questions1 = (dupes2, questions2)"
    by (cases "restricted_tables min_dupes min_text dupes1 questions1") blast
  from assms c r show ?thesis
    by (auto simp: clean_data_def split: if_splits sum.splits)
qed

lemma closed_tables_verified:
  assumes "closed_tables clean_text lower answers0 dupes0 questions0 = (answers, dupes, questions)"
  shows "verify_data_integrity answers dupes questions = Inr ()"
proof -
  define Q where "Q = drop_duplicated Id' [] (text_rows clean_text lower questions0)"
  define D where "D = drop_duplicated Id' []
                 (filter (\<lambda>d. Id' d \<notin> set (map Id' (text_rows clean_text lower questions0)))
                    (text_rows clean_text lower dupes0))"
  define A where "A = text_answers clean_text lower answers0"
  have q: "questions = filter (\<lambda>q. AnswerId q \<in> set (map Id_a A)
                                 \<and> AnswerId q \<in> set (map AnswerId D)) Q"
    and a: "answers = filter (\<lambda>a. Id_a a \<in> set (map AnswerId questions)) A"
    and d: "dupes = filter (\<lambda>d. AnswerId d \<in> set (map AnswerId questions)) D"
    unfolding Q_def D_def A_def by (rule closed_tables_eq [OF assms])+
  have qa: "set (map AnswerId questions) \<subseteq> set (map Id_a A)"
    and qd: "set (map AnswerId questions) \<subseteq> set (map AnswerId D)"
    unfolding q by auto
  have 1: "list_all (\<lambda>q. AnswerId q \<in> set (map Id_a answers)) questions"
    unfolding list_all_iff a set_map_filter_key using qa by auto
  have 2: "list_all (\<lambda>a. Id_a a \<in> set (map AnswerId questions)) answers"
    unfolding list_all_iff a by simp
  have 3: "list_all (\<lambda>q. AnswerId q \<in> set (map AnswerId dupes)) questions"
    unfolding list_all_iff d set_map_filter_key using qd by auto
  have 4: "list_all (\<lambda>d. AnswerId d \<in> set (map AnswerId questions)) dupes"
    unfolding list_all_iff d by simp
  from 1 2 3 4 show ?thesis
    by (simp add: verify_data_integrity_def)
qed

lemma clean_data_cases:
  obtains (IndexError) "clean_data clean_text lower answers0 dupes0 min_dupes min_text questions0 show_output
             = Inl (IndexError 86)"
  | (ZeroDivisionError) l where "l = 107 \<or> l = 137"
      "clean_data clean_text lower answers0 dupes0 min_dupes min_text questions0 show_output
             = Inl (ZeroDivisionError l)"
  | (Inr) answers dupes1 questions1 dupes questions where
      "closed_tables clean_text lower answers0 dupes0 questions0 = (answers, dupes1, questions1)"
      "restricted_tables min_dupes min_text dupes1 questions1 = (dupes, questions)"
      "clean_data clean_text lower answers0 dupes0 min_dupes min_text questions0 show_output
             = Inr (dupes, ''AnswerId'', questions)"
proof -
  obtain answers dupes1 questions1 where
    c: "closed_tables clean_text lower answers0 dupes0 questions0 = (answers, dupes1, questions1)"
    by (cases "closed_tables clean_text lower answers0 dupes0 questions0") blast
  obtain dupes questions where
    r: "restricted_tables min_dupes min_text dupes1 questions1 = (dupes, questions)"
    by (cases "restricted_tables min_dupes min_text dupes1 questions1") blast
  have v: "verify_data_integrity answers dupes1 questions1 = Inr ()"
    by (rule closed_tables_verified [OF c])
  have eq: "set (map AnswerId questions) = set (map AnswerId dupes)"
    by (rule restricted_tables_closed [OF r])
  have 1: "list_all (\<lambda>q. AnswerId q \<in> set (map AnswerId dupes)) questions"
    unfolding list_all_iff eq [symmetric] by simp
  have 2: "list_all (\<lambda>d. AnswerId d \<in> set (map AnswerId questions)) dupes"
    unfolding list_all_iff eq by simp
  have "clean_data clean_text lower answers0 dupes0 min_dupes min_text questions0 show_output =
     (if show_output \<and> text_rows clean_text lower questions0 = [] then Inl (IndexError 86)
      else if show_output \<and> dupes1 = [] then Inl (ZeroDivisionError 107)
      else if show_output \<and> dupes = [] then Inl (ZeroDivisionError 137)
      else Inr (dupes, ''AnswerId'', questions))"
    unfolding clean_data_def c prod.case v sum.case r
    by (simp only: 1 2 not_True_eq_False if_False)
  with c r that show thesis
    by (auto split: if_splits)
qed

lemma ex_clean_data:
  "clean_data ex_clean_text ex_lower ex_answers ex_dupes 2 10 ex_questions False
     = Inr ([ex_d5, ex_d6, ex_d8, ex_d9], ''AnswerId'', [ex_q1, ex_q2])"
  by code_simp

subsection \<open>The minimum text length\<close>

text \<open>
  Claim C1. Whenever \<^verbatim>\<open>clean_data\<close> returns, every row of the returned Questions table
  and of the returned Duplicates table carries as \<^verbatim>\<open>Text\<close> the cleaned, lower-cased
  \<^verbatim>\<open>Text0\<close>, and that text has at least \<^verbatim>\<open>min_text\<close> characters. This holds for every
  input, every cleaning function and every value of \<^verbatim>\<open>min_text\<close> and \<^verbatim>\<open>min_dupes\<close>.
\<close>

theorem clean_data_min_text:
  assumes "clean_data clean_text lower answers0 dupes0 min_dupes min_text questions0 show_output
             = Inr (dupes, label_column, questions)"
      and "r \<in> set questions \<union> set dupes"
  shows "Text r = lower (clean_text (Text0 r)) \<and> min_text \<le> int (length (Text r))"
proof -
  from clean_data_Inr [OF assms(1)] obtain answers1 dupes1 questions1 where
    c: "closed_tables clean_text lower answers0 dupes0 questions0 = (answers1, dupes1, questions1)"
    and r: "restricted_tables min_dupes min_text dupes1 questions1 = (dupes, questions)"
    by blast
  from assms(2) restricted_tables_subset [OF r]
  have len: "min_text \<le> int (length (Text r))" and mem: "r \<in> set questions1 \<union> set dupes1"
    by auto
  from mem closed_tables_subset(1,2) [OF c]
  have "r \<in> set (text_rows clean_text lower questions0) \<union> set (text_rows clean_text lower dupes0)"
    by auto
  then have "Text r = lower (clean_text (Text0 r))"
    using text_rows_Text by blast
  with len show ?thesis by simp
qed

theorem clean_data_min_text_witness:
  "clean_data ex_clean_text ex_lower ex_answers ex_dupes 2 10 ex_questions False
     = Inr ([ex_d5, ex_d6, ex_d8, ex_d9], ''AnswerId'', [ex_q1, ex_q2])
   \<and> ex_d6 \<in> set [ex_q1, ex_q2] \<union> set [ex_d5, ex_d6, ex_d8, ex_d9]
   \<and> Text ex_d6 = ex_lower (ex_clean_text (Text0 ex_d6)) \<and> (10 :: int) \<le> int (length (Text ex_d6))"
proof -
  have m: "ex_d6 \<in> set [ex_q1, ex_q2] \<union> set [ex_d5, ex_d6, ex_d8, ex_d9]"
    by simp
  from clean_data_min_text [OF ex_clean_data m] ex_clean_data m show ?thesis
    by blast
qed

subsection \<open>The minimum number of dupes\<close>

text \<open>
  Claim C2. Whenever \<^verbatim>\<open>clean_data\<close> returns, every \<^verbatim>\<open>AnswerId\<close> that occurs in the
  returned Duplicates table occurs in at least \<^verbatim>\<open>min_dupes\<close> rows of that table.
\<close>

theorem clean_data_min_dupes:
  assumes "clean_data clean_text lower answers0 dupes0 min_dupes min_text questions0 show_output
             = Inr (dupes, label_column, questions)"
      and "a \<in> set (map AnswerId dupes)"
  shows "min_dupes \<le> int (length (filter (\<lambda>d. AnswerId d = a) dupes))"
proof -
  from clean_data_Inr [OF assms(1)] obtain dupes1 questions1 where
    "restricted_tables min_dupes min_text dupes1 questions1 = (dupes, questions)"
    by blast
  from restricted_tables_count [OF this assms(2)] show ?thesis
    by (simp add: length_filter_eq_count_list)
qed

theorem clean_data_min_dupes_witness:
  "clean_data ex_clean_text ex_lower ex_answers ex_dupes 2 10 ex_questions False
     = Inr ([ex_d5, ex_d6, ex_d8, ex_d9], ''AnswerId'', [ex_q1, ex_q2])
   \<and> 200 \<in> set (map AnswerId [ex_d5, ex_d6, ex_d8, ex_d9])
   \<and> (2 :: int) \<le> int (length (filter (\<lambda>d. AnswerId d = 200) [ex_d5, ex_d6, ex_d8, ex_d9]))"
proof -
  have m: "200 \<in> set (map AnswerId [ex_d5, ex_d6, ex_d8, ex_d9])"
    by (simp add: ex_d8_def)
  from clean_data_min_dupes [OF ex_clean_data m] ex_clean_data m show ?thesis
    by blast
qed

subsection \<open>Questions and dupes share their answers\<close>

text \<open>
  Claim C3. Whenever \<^verbatim>\<open>clean_data\<close> returns, the \<^verbatim>\<open>AnswerId\<close> values of the returned
  Questions table are exactly the \<^verbatim>\<open>AnswerId\<close> values of the returned Duplicates table.
  The two assertions of lines 125 and 126, which check this, never fail.
\<close>

theorem clean_data_closure:
  "clean_data clean_text lower answers0 dupes0 min_dupes min_text questions0 show_output
      \<notin> {Inl (AssertionError 125), Inl (AssertionError 126)}
   \<and> (\<forall>dupes label_column questions.
         clean_data clean_text lower answers0 dupes0 min_dupes min_text questions0 show_output
           = Inr (dupes, label_column, questions)
         \<longrightarrow> set (map AnswerId questions) = set (map AnswerId dupes))"
proof (cases rule: clean_data_cases
    [of clean_text lower answers0 dupes0 min_dupes min_text questions0 show_output])
  case IndexError
  then show ?thesis by simp
next
  case (ZeroDivisionError l)
  then show ?thesis by simp
next
  case (Inr answers dupes1 questions1 dupes questions)
  from restricted_tables_closed [OF Inr(2)] Inr(3) show ?thesis by simp
qed

theorem clean_data_closure_witness:
  "clean_data ex_clean_text ex_lower ex_answers ex_dupes 2 10 ex_questions False
     = Inr ([ex_d5, ex_d6, ex_d8, ex_d9], ''AnswerId'', [ex_q1, ex_q2])
   \<and> set (map AnswerId [ex_q1, ex_q2]) = set (map AnswerId [ex_d5, ex_d6, ex_d8, ex_d9])"
  using clean_data_closure
    [of ex_clean_text ex_lower ex_answers ex_dupes 2 10 ex_questions False]
    ex_clean_data
  by simp

subsection \<open>The integrity check cannot fail\<close>

text \<open>
  Claim C10. For every input, the tables that \<^verbatim>\<open>clean_data\<close> hands to
  \<^verbatim>\<open>verify_data_integrity\<close> pass its four assertions: the filters of lines 93 to 95
  establish the four inclusions. Hence \<^verbatim>\<open>clean_data\<close> never ends in an
  \<^verbatim>\<open>AssertionError\<close>, whatever the line.
\<close>

theorem verify_data_integrity_passes:
  "(case closed_tables clean_text lower answers0 dupes0 questions0 of
      (answers, dupes, questions) \<Rightarrow> verify_data_integrity answers dupes questions = Inr ())
   \<and> (\<forall>l. clean_data clean_text lower answers0 dupes0 min_dupes min_text questions0 show_output
           \<noteq> Inl (AssertionError l))"
proof
  show "case closed_tables clean_text lower answers0 dupes0 questions0 of
      (answers, dupes, questions) \<Rightarrow> verify_data_integrity answers dupes questions = Inr ()"
    using closed_tables_verified by (auto split: prod.splits)
  show "\<forall>l. clean_data clean_text lower answers0 dupes0 min_dupes min_text questions0 show_output
           \<noteq> Inl (AssertionError l)"
    by (cases rule: clean_data_cases
        [of clean_text lower answers0 dupes0 min_dupes min_text questions0 show_output]) simp_all
qed

theorem verify_data_integrity_passes_witness:
  "verify_data_integrity
     (fst (closed_tables ex_clean_text ex_lower ex_answers ex_dupes ex_questions))
     (fst (snd (closed_tables ex_clean_text ex_lower ex_answers ex_dupes ex_questions)))
     (snd (snd (closed_tables ex_clean_text ex_lower ex_answers ex_dupes ex_questions))) = Inr ()"
  using verify_data_integrity_passes
    [of ex_clean_text ex_lower ex_answers ex_dupes ex_questions 2 10 False]
  by (simp add: case_prod_beta)

subsection \<open>No repeated \<^verbatim>\<open>Id\<close>\<close>

lemma find_filter: "find P (filter Q xs) = find (\<lambda>x. Q x \<and> P x) xs"
  by (induction xs) auto

lemma closed_tables_distinct:
  assumes "closed_tables clean_text lower answers0 dupes0 questions0 = (answers, dupes, questions)"
  shows "distinct (map Id' questions)" and "distinct (map Id' dupes)"
proof -
  show "distinct (map Id' questions)"
    unfolding closed_tables_eq(1) [OF assms]
    by (intro distinct_map_filter distinct_drop_duplicated)
  show "distinct (map Id' dupes)"
    unfolding closed_tables_eq(3) [OF assms]
    by (intro distinct_map_filter distinct_drop_duplicated)
qed

lemma closed_tables_first:
  assumes "closed_tables clean_text lower answers0 dupes0 questions0 = (answers, dupes, questions)"
  shows "q \<in> set questions \<Longrightarrow>
           find (\<lambda>r. Id' r = Id' q) (text_rows clean_text lower questions0) = Some q"
    and "d \<in> set dupes \<Longrightarrow>
           find (\<lambda>r. Id' r = Id' d) (text_rows clean_text lower dupes0) = Some d"
proof -
  assume "q \<in> set questions"
  then have "q \<in> set (drop_duplicated Id' [] (text_rows clean_text lower questions0))"
    unfolding closed_tables_eq(1) [OF assms] by simp
  then show "find (\<lambda>r. Id' r = Id' q) (text_rows clean_text lower questions0) = Some q"
    by (rule drop_duplicated_first)
next
  define QI where "QI = set (map Id' (text_rows clean_text lower questions0))"
  assume "d \<in> set dupes"
  then have d: "d \<in> set (drop_duplicated Id' []
                  (filter (\<lambda>d. Id' d \<notin> QI) (text_rows clean_text lower dupes0)))"
    unfolding closed_tables_eq(3) [OF assms] QI_def by simp
  then have "d \<in> set (filter (\<lambda>d. Id' d \<notin> QI) (text_rows clean_text lower dupes0))"
    using set_drop_duplicated_subset by fastforce
  then have nq: "Id' d \<notin> QI" by simp
  from d have "find (\<lambda>r. Id' r = Id' d)
                (filter (\<lambda>d. Id' d \<notin> QI) (text_rows clean_text lower dupes0)) = Some d"
    by (rule drop_duplicated_first)
  then have "find (\<lambda>r. Id' r \<notin> QI \<and> Id' r = Id' d) (text_rows clean_text lower dupes0) = Some d"
    by (simp add: find_filter)
  moreover have "find (\<lambda>r. Id' r \<notin> QI \<and> Id' r = Id' d) (text_rows clean_text lower dupes0)
      = find (\<lambda>r. Id' r = Id' d) (text_rows clean_text lower dupes0)"
    using nq by (intro find_cong) auto
  ultimately show "find (\<lambda>r. Id' r = Id' d) (text_rows clean_text lower dupes0) = Some d"
    by simp
qed

lemma closed_tables_answers_distinct:
  assumes "distinct (map Id_a answers0)"
  shows "distinct (map Id_a (fst (closed_tables clean_text lower answers0 dupes0 questions0)))"
proof -
  obtain answers dupes questions where
    c: "closed_tables clean_text lower answers0 dupes0 questions0 = (answers, dupes, questions)"
    by (cases "closed_tables clean_text lower answers0 dupes0 questions0") blast
  have m: "map Id_a (map (add_text_a clean_text lower) answers0) = map Id_a answers0"
    by (simp add: add_text_a_def)
  have "distinct (map Id_a (map (add_text_a clean_text lower) answers0))"
    unfolding m by (rule assms)
  then have "distinct (map Id_a (text_answers clean_text lower answers0))"
    unfolding text_answers_def by (rule distinct_map_filter)
  then have "distinct (map Id_a answers)"
    unfolding closed_tables_eq(2) [OF c] by (rule distinct_map_filter)
  with c show ?thesis by simp
qed

text \<open>
  Claim C9, as the code has it. Whenever \<^verbatim>\<open>clean_data\<close> returns, no two rows of the
  returned Questions table share an \<^verbatim>\<open>Id\<close>, and no two rows of the returned Duplicates
  table do; a row that is kept is the first row of its \<^verbatim>\<open>Id\<close> among the rows of the raw
  table whose cleaned \<^verbatim>\<open>Text\<close> is not empty. The Answers table is not de-duplicated: its
  \<^verbatim>\<open>Id\<close>s are distinct after cleaning if they are distinct in the raw table (rows
  sharing an \<^verbatim>\<open>Id\<close> are kept or dropped together by line 94, each on its own by line 83).
\<close>

theorem clean_data_distinct_Id:
  assumes "clean_data clean_text lower answers0 dupes0 min_dupes min_text questions0 show_output
             = Inr (dupes, label_column, questions)"
  shows "distinct (map Id' questions) \<and> distinct (map Id' dupes)
       \<and> (\<forall>q \<in> set questions.
            find (\<lambda>r. Id' r = Id' q) (text_rows clean_text lower questions0) = Some q)
       \<and> (\<forall>d \<in> set dupes.
            find (\<lambda>r. Id' r = Id' d) (text_rows clean_text lower dupes0) = Some d)
       \<and> (distinct (map Id_a answers0) \<longrightarrow>
            distinct (map Id_a (fst (closed_tables clean_text lower answers0 dupes0 questions0))))"
proof -
  from clean_data_Inr [OF assms] obtain answers1 dupes1 questions1 where
    c: "closed_tables clean_text lower answers0 dupes0 questions0 = (answers1, dupes1, questions1)"
    and r: "restricted_tables min_dupes min_text dupes1 questions1 = (dupes, questions)"
    by blast
  from restricted_tables_sublist [OF r] obtain P Q where
    d: "dupes = filter P dupes1" and q: "questions = filter Q questions1"
    by blast
  have "distinct (map Id' questions)"
    unfolding q by (intro distinct_map_filter closed_tables_distinct(1) [OF c])
  moreover have "distinct (map Id' dupes)"
    unfolding d by (intro distinct_map_filter closed_tables_distinct(2) [OF c])
  moreover have "\<forall>q \<in> set questions.
      find (\<lambda>r. Id' r = Id' q) (text_rows clean_text lower questions0) = Some q"
    unfolding q using closed_tables_first(1) [OF c] by simp
  moreover have "\<forall>d \<in> set dupes.
      find (\<lambda>r. Id' r = Id' d) (text_rows clean_text lower dupes0) = Some d"
    unfolding d using closed_tables_first(2) [OF c] by simp
  ultimately show ?thesis
    using closed_tables_answers_distinct by blast
qed

theorem clean_data_distinct_Id_witness:
  "clean_data ex_clean_text ex_lower (tl ex_answers) ex_dupes 2 10 ex_questions False
       = Inr ([ex_d5, ex_d6, ex_d8, ex_d9], ''AnswerId'', [ex_q1, ex_q2])
   \<and> distinct (map Id' [ex_q1, ex_q2]) \<and> distinct (map Id' [ex_d5, ex_d6, ex_d8, ex_d9])
   \<and> find (\<lambda>r. Id' r = Id' ex_q1) (text_rows ex_clean_text ex_lower ex_questions) = Some ex_q1
   \<and> find (\<lambda>r. Id' r = Id' ex_d5) (text_rows ex_clean_text ex_lower ex_dupes) = Some ex_d5
   \<and> distinct (map Id_a (tl ex_answers))
   \<and> distinct (map Id_a (fst (closed_tables ex_clean_text ex_lower (tl ex_answers) ex_dupes
                                    ex_questions)))"
proof -
  have e: "clean_data ex_clean_text ex_lower (tl ex_answers) ex_dupes 2 10 ex_questions False
       = Inr ([ex_d5, ex_d6, ex_d8, ex_d9], ''AnswerId'', [ex_q1, ex_q2])"
    by code_simp
  have a: "distinct (map Id_a (tl ex_answers))"
    by code_simp
  from clean_data_distinct_Id [OF e] a e show ?thesis
    by simp
qed

text \<open>
  Claim C9 as the specification words it fails on the small data set. The
  two answers with \<^verbatim>\<open>Id\<close> 100 both reach the cleaned Answers table, and the question
  kept for \<^verbatim>\<open>Id\<close> 1 is the second row of the raw table, the first one having no text.
\<close>

theorem clean_data_answers_Id_counterexample:
  "map Id_a (fst (closed_tables ex_clean_text ex_lower ex_answers ex_dupes ex_questions))
     = [100, 100, 200]
   \<and> \<not> distinct (map Id_a (fst (closed_tables ex_clean_text ex_lower ex_answers ex_dupes ex_questions)))
   \<and> clean_data ex_clean_text ex_lower ex_answers ex_dupes 2 10 ex_questions False
       = Inr ([ex_d5, ex_d6, ex_d8, ex_d9], ''AnswerId'', [ex_q1, ex_q2])
   \<and> Id' (hd ex_questions) = Id' ex_q1 \<and> Text0 (hd ex_questions) \<noteq> Text0 ex_q1"
proof -
  have a: "map Id_a (fst (closed_tables ex_clean_text ex_lower ex_answers ex_dupes ex_questions))
     = [100, 100, 200]"
    by code_simp
  have h: "Id' (hd ex_questions) = Id' ex_q1 \<and> Text0 (hd ex_questions) \<noteq> Text0 ex_q1"
    by code_simp
  from a h ex_clean_data show ?thesis by simp
qed

section \<open>Properties of \<^verbatim>\<open>split_duplicates\<close>\<close>

lemma length_unique: "length (unique xs) = card (set xs)"
  by (simp add: unique_def length_remdups_card_conv)

lemma split_duplicates_Inr:
  assumes "split_duplicates round_sample_strat random_merge dupes label_column match questions
             show_output test_size = Inr (balanced_pairs_test, balanced_pairs_train, dupes_test)"
  obtains col merged_train merged_test where
    "column label_column = Some col"
    "round_sample_strat dupes (map col dupes) test_size = Inr dupes_test"
    "card (set (map col dupes_test)) = card (set (map col dupes))"
    "random_merge (dupes_train_rows dupes dupes_test) questions match = Inr merged_train"
    "random_merge dupes_test questions (int (length questions)) = Inr merged_test"
    "balanced_pairs_train = sort_values (map label_pair merged_train)"
    "balanced_pairs_test = sort_values (map label_pair merged_test)"
  using assms unfolding split_duplicates_def Let_def length_unique
  by (auto split: option.splits sum.splits if_splits)

lemma set_sort_values: "set (sort_values df) = set df"
  by (simp add: sort_values_def)

lemma label_pair_Label:
  "Label (label_pair m) \<in> {0, 1}"
  "Label (label_pair m) = 1 \<longleftrightarrow> AnswerId_x (label_pair m) = AnswerId_y (label_pair m)"
  by (simp_all add: label_pair_def)

lemma label_pair_columns:
  "Id_x (label_pair m) = Id_x m" "AnswerId_x (label_pair m) = AnswerId_x m"
  "Text_x (label_pair m) = Text_x m" "Id_y (label_pair m) = Id_y m"
  "Text_y (label_pair m) = Text_y m" "AnswerId_y (label_pair m) = AnswerId_y m"
  "n_col (label_pair m) = n_col m"
  by (simp_all add: label_pair_def)

lemma column_AnswerId: "column ''AnswerId'' = Some (\<lambda>r. IntCell (AnswerId r))"
  by (simp add: column_def)

lemma sorted_wrt_sort_values:
  "sorted_wrt (\<lambda>p q. Id_x p \<le> Id_x q
                  \<and> (Id_x p = Id_x q \<longrightarrow> \<not> (Label p = 0 \<and> Label q = 1)))
     (sort_values df)"
proof -
  have "sorted (map (\<lambda>p. (Id_x p, - Label p)) (sort_values df))"
    unfolding sort_values_def by (rule sorted_sort_key)
  then have "sorted_wrt (\<lambda>p q. (Id_x p, - Label p) \<le> (Id_x q, - Label q)) (sort_values df)"
    by (simp add: sorted_map)
  then show ?thesis
    by (rule sorted_wrt_mono_rel [rotated]) (auto simp: less_eq_prod_def)
qed

lemma ex_split_duplicates:
  "split_duplicates ex_sampler ex_merge [ex_d5, ex_d6, ex_d8, ex_d9] ''AnswerId'' 20
       [ex_q1, ex_q2] False ()
     = Inr ([ex_pair ex_d5 ex_q1 1, ex_pair ex_d5 ex_q2 0, ex_pair ex_d8 ex_q2 1, ex_pair ex_d8 ex_q1 0],
            [ex_pair ex_d6 ex_q1 1, ex_pair ex_d6 ex_q2 0, ex_pair ex_d9 ex_q2 1, ex_pair ex_d9 ex_q1 0],
            [ex_d5, ex_d8])"
  by code_simp

subsection \<open>Labels\<close>

text \<open>
  Claim C4. Whenever \<^verbatim>\<open>split_duplicates\<close> returns, whatever the sampler and
  \<^verbatim>\<open>random_merge\<close> have returned, every row of \<^verbatim>\<open>balanced_pairs_train\<close> and of
  \<^verbatim>\<open>balanced_pairs_test\<close> has \<^verbatim>\<open>Label\<close> 1 if and only if its \<^verbatim>\<open>AnswerId_x\<close> equals its
  \<^verbatim>\<open>AnswerId_y\<close>; the only other label is 0.
\<close>

theorem split_duplicates_label:
  fixes random_merge :: "row list \<Rightarrow> row list \<Rightarrow> int \<Rightarrow> error + 'm merged_scheme list"
  assumes "split_duplicates round_sample_strat random_merge dupes label_column match questions
             show_output test_size = Inr (balanced_pairs_test, balanced_pairs_train, dupes_test)"
      and "p \<in> set balanced_pairs_train \<union> set balanced_pairs_test"
  shows "(Label p = 1 \<longleftrightarrow> AnswerId_x p = AnswerId_y p) \<and> (Label p = 0 \<or> Label p = 1)"
proof -
  from assms(1) obtain merged_train merged_test :: "'m merged_scheme list" where
    "balanced_pairs_train = sort_values (map label_pair merged_train)"
    "balanced_pairs_test = sort_values (map label_pair merged_test)"
    by (rule split_duplicates_Inr) blast
  with assms(2) have "p \<in> label_pair ` set merged_train \<union> label_pair ` set merged_test"
    by (simp add: set_sort_values)
  then obtain m :: "'m merged_scheme" where "p = label_pair m" by blast
  with label_pair_Label [of m] show ?thesis by auto
qed

theorem split_duplicates_label_witness:
  "ex_pair ex_d8 ex_q1 0 \<in> set [ex_pair ex_d6 ex_q1 1, ex_pair ex_d6 ex_q2 0,
                                ex_pair ex_d9 ex_q2 1, ex_pair ex_d9 ex_q1 0]
                         \<union> set [ex_pair ex_d5 ex_q1 1, ex_pair ex_d5 ex_q2 0,
                                ex_pair ex_d8 ex_q2 1, ex_pair ex_d8 ex_q1 0]
   \<and> (Label (ex_pair ex_d8 ex_q1 0) = 1
        \<longleftrightarrow> AnswerId_x (ex_pair ex_d8 ex_q1 0) = AnswerId_y (ex_pair ex_d8 ex_q1 0))
   \<and> (Label (ex_pair ex_d8 ex_q1 0) = 0 \<or> Label (ex_pair ex_d8 ex_q1 0) = 1)"
proof -
  have m: "ex_pair ex_d8 ex_q1 0 \<in> set [ex_pair ex_d6 ex_q1 1, ex_pair ex_d6 ex_q2 0,
                                ex_pair ex_d9 ex_q2 1, ex_pair ex_d9 ex_q1 0]
                         \<union> set [ex_pair ex_d5 ex_q1 1, ex_pair ex_d5 ex_q2 0,
                                ex_pair ex_d8 ex_q2 1, ex_pair ex_d8 ex_q1 0]"
    by simp
  from split_duplicates_label [OF ex_split_duplicates m] m show ?thesis
    by blast
qed

subsection \<open>Order of the pairs\<close>

text \<open>
  Claim C5. Whenever \<^verbatim>\<open>split_duplicates\<close> returns, in \<^verbatim>\<open>balanced_pairs_train\<close> and in
  \<^verbatim>\<open>balanced_pairs_test\<close> a row that comes before another has the smaller or the same
  \<^verbatim>\<open>Id_x\<close>, and among rows of the same \<^verbatim>\<open>Id_x\<close> no row labelled 0 comes before a row
  labelled 1.
\<close>

theorem split_duplicates_sorted:
  fixes random_merge :: "row list \<Rightarrow> row list \<Rightarrow> int \<Rightarrow> error + 'm merged_scheme list"
  assumes "split_duplicates round_sample_strat random_merge dupes label_column match questions
             show_output test_size = Inr (balanced_pairs_test, balanced_pairs_train, dupes_test)"
  shows "sorted_wrt (\<lambda>p q. Id_x p \<le> Id_x q
                        \<and> (Id_x p = Id_x q \<longrightarrow> \<not> (Label p = 0 \<and> Label q = 1)))
           balanced_pairs_train
       \<and> sorted_wrt (\<lambda>p q. Id_x p \<le> Id_x q
                        \<and> (Id_x p = Id_x q \<longrightarrow> \<not> (Label p = 0 \<and> Label q = 1)))
           balanced_pairs_test"
proof -
  from assms obtain merged_train merged_test :: "'m merged_scheme list" where
    "balanced_pairs_train = sort_values (map label_pair merged_train)"
    "balanced_pairs_test = sort_values (map label_pair merged_test)"
    by (rule split_duplicates_Inr) blast
  then show ?thesis
    by (simp only: sorted_wrt_sort_values)
qed

theorem split_duplicates_sorted_witness:
  "sorted_wrt (\<lambda>p q. Id_x p \<le> Id_x q \<and> (Id_x p = Id_x q \<longrightarrow> \<not> (Label p = 0 \<and> Label q = 1)))
     [ex_pair ex_d6 ex_q1 1, ex_pair ex_d6 ex_q2 0, ex_pair ex_d9 ex_q2 1, ex_pair ex_d9 ex_q1 0]
   \<and> sorted_wrt (\<lambda>p q. Id_x p \<le> Id_x q \<and> (Id_x p = Id_x q \<longrightarrow> \<not> (Label p = 0 \<and> Label q = 1)))
     [ex_pair ex_d5 ex_q1 1, ex_pair ex_d5 ex_q2 0, ex_pair ex_d8 ex_q2 1, ex_pair ex_d8 ex_q1 0]"
  by (rule split_duplicates_sorted [OF ex_split_duplicates])

subsection \<open>Train and test dupes\<close>

lemma dupes_train_rows_partition:
  "set (map Id' (dupes_train_rows dupes dupes_test)) \<inter> set (map Id' dupes_test) = {}
   \<and> (set dupes_test \<subseteq> set dupes \<longrightarrow>
        set (map Id' (dupes_train_rows dupes dupes_test)) \<union> set (map Id' dupes_test)
          = set (map Id' dupes))"
  by (auto simp: dupes_train_rows_def)

text \<open>
  Claim C6. Whenever \<^verbatim>\<open>split_duplicates\<close> returns, the dupes it hands to \<^verbatim>\<open>random_merge\<close>
  for \<^verbatim>\<open>balanced_pairs_train\<close> are the rows of the cleaned Duplicates table whose \<^verbatim>\<open>Id\<close>
  is not the \<^verbatim>\<open>Id\<close> of a test dupe, the test dupes being what the sampler returned. The
  two sets share no \<^verbatim>\<open>Id\<close>; when the test dupes are rows of the cleaned Duplicates
  table, the \<^verbatim>\<open>Id\<close>s of the two sets together are the \<^verbatim>\<open>Id\<close>s of that table.
\<close>

theorem split_duplicates_partition:
  fixes random_merge :: "row list \<Rightarrow> row list \<Rightarrow> int \<Rightarrow> error + 'm merged_scheme list"
  assumes "split_duplicates round_sample_strat random_merge dupes label_column match questions
             show_output test_size = Inr (balanced_pairs_test, balanced_pairs_train, dupes_test)"
  shows "\<exists>col dupes_train merged_train.
           column label_column = Some col
         \<and> round_sample_strat dupes (map col dupes) test_size = Inr dupes_test
         \<and> dupes_train = filter (\<lambda>d. Id' d \<notin> set (map Id' dupes_test)) dupes
         \<and> random_merge dupes_train questions match = Inr merged_train
         \<and> balanced_pairs_train = sort_values (map label_pair merged_train)
         \<and> set (map Id' dupes_train) \<inter> set (map Id' dupes_test) = {}
         \<and> (set dupes_test \<subseteq> set dupes \<longrightarrow>
              set (map Id' dupes_train) \<union> set (map Id' dupes_test) = set (map Id' dupes))"
proof -
  from assms obtain col and merged_train :: "'m merged_scheme list" where
    col: "column label_column = Some col"
    and rss: "round_sample_strat dupes (map col dupes) test_size = Inr dupes_test"
    and rm: "random_merge (dupes_train_rows dupes dupes_test) questions match = Inr merged_train"
    and btr: "balanced_pairs_train = sort_values (map label_pair merged_train)"
    by (rule split_duplicates_Inr) blast
  have tr: "dupes_train_rows dupes dupes_test
              = filter (\<lambda>d. Id' d \<notin> set (map Id' dupes_test)) dupes"
    by (simp add: dupes_train_rows_def)
  from col rss rm btr tr dupes_train_rows_partition [of dupes dupes_test] show ?thesis
    by blast
qed

theorem split_duplicates_partition_witness:
  "set [ex_d5, ex_d8] \<subseteq> set [ex_d5, ex_d6, ex_d8, ex_d9]
   \<and> (\<exists>col dupes_train merged_train.
         column ''AnswerId'' = Some col
       \<and> ex_sampler [ex_d5, ex_d6, ex_d8, ex_d9] (map col [ex_d5, ex_d6, ex_d8, ex_d9]) ()
           = Inr [ex_d5, ex_d8]
       \<and> dupes_train = filter (\<lambda>d. Id' d \<notin> set (map Id' [ex_d5, ex_d8]))
                          [ex_d5, ex_d6, ex_d8, ex_d9]
       \<and> ex_merge dupes_train [ex_q1, ex_q2] 20 = Inr merged_train
       \<and> [ex_pair ex_d6 ex_q1 1, ex_pair ex_d6 ex_q2 0, ex_pair ex_d9 ex_q2 1,
          ex_pair ex_d9 ex_q1 0] = sort_values (map label_pair merged_train)
       \<and> set (map Id' dupes_train) \<inter> set (map Id' [ex_d5, ex_d8]) = {}
       \<and> set (map Id' dupes_train) \<union> set (map Id' [ex_d5, ex_d8])
           = set (map Id' [ex_d5, ex_d6, ex_d8, ex_d9]))"
proof -
  have s: "set [ex_d5, ex_d8] \<subseteq> set [ex_d5, ex_d6, ex_d8, ex_d9]"
    by simp
  from split_duplicates_partition [OF ex_split_duplicates] s show ?thesis
    by blast
qed

subsection \<open>Every class is in the test set\<close>

text \<open>
  Claim C7. When \<^verbatim>\<open>split_duplicates\<close>, called with the label column \<^verbatim>\<open>AnswerId\<close>,
  returns (so that the assertion of line 51 has passed) and the test dupes are rows of
  the table that was sampled, every \<^verbatim>\<open>AnswerId\<close> of that table is the \<^verbatim>\<open>AnswerId\<close> of
  some test dupe.
\<close>

theorem split_duplicates_classes:
  assumes "split_duplicates round_sample_strat random_merge dupes ''AnswerId'' match questions
             show_output test_size = Inr (balanced_pairs_test, balanced_pairs_train, dupes_test)"
      and "set dupes_test \<subseteq> set dupes"
  shows "set (map AnswerId dupes) \<subseteq> set (map AnswerId dupes_test)"
proof -
  from assms(1) obtain col where
    col: "column ''AnswerId'' = Some col"
    and card: "card (set (map col dupes_test)) = card (set (map col dupes))"
    by (rule split_duplicates_Inr) blast
  from col have col_eq: "col = (\<lambda>r. IntCell (AnswerId r))"
    by (simp add: column_AnswerId)
  from assms(2) have "set (map col dupes_test) \<subseteq> set (map col dupes)"
    by auto
  with card have "set (map col dupes_test) = set (map col dupes)"
    by (simp add: card_subset_eq)
  then have "IntCell ` set (map AnswerId dupes_test) = IntCell ` set (map AnswerId dupes)"
    by (simp add: col_eq image_image)
  then have "set (map AnswerId dupes_test) = set (map AnswerId dupes)"
    by (simp add: inj_image_eq_iff inj_def)
  then show ?thesis by simp
qed

theorem split_duplicates_classes_witness:
  "set [ex_d5, ex_d8] \<subseteq> set [ex_d5, ex_d6, ex_d8, ex_d9]
   \<and> set (map AnswerId [ex_d5, ex_d6, ex_d8, ex_d9]) \<subseteq> set (map AnswerId [ex_d5, ex_d8])"
proof -
  have s: "set [ex_d5, ex_d8] \<subseteq> set [ex_d5, ex_d6, ex_d8, ex_d9]"
    by simp
  from split_duplicates_classes [OF ex_split_duplicates s] s show ?thesis
    by blast
qed

section \<open>Properties of \<^verbatim>\<open>create_stack_overflow_data\<close>\<close>

lemma create_cache_hit:
  fixes c :: io and w :: world
  defines "outputs_path \<equiv> directory c @ ''/data_folder''"
  assumes "isfile w (path_join outputs_path ''dupes_test.tsv'')"
      and "isfile w (path_join outputs_path ''questions.tsv'')"
  shows "create_stack_overflow_data c clean_text lower round_sample_strat random_merge
           test_size min_text min_dupes match show_output w =
         ((case pd_read_csv c 31 w (path_join outputs_path ''questions.tsv'') of
             Inl e \<Rightarrow> Inl e
           | Inr questions \<Rightarrow>
               (case pd_read_csv c 31 w (path_join outputs_path ''dupes_test.tsv'') of
                  Inl e \<Rightarrow> Inl e
                | Inr dupes_test \<Rightarrow> Inr (questions, dupes_test))), w)"
  using assms(2,3) unfolding create_stack_overflow_data_def Let_def outputs_path_def
  by (simp split: sum.splits)

lemma create_cache_miss_eq:
  fixes c :: io and w :: world
    and random_merge :: "row list \<Rightarrow> row list \<Rightarrow> int \<Rightarrow> error + 'm merged_scheme list"
  defines "outputs_path \<equiv> directory c @ ''/data_folder''"
  defines "dupes_test_path \<equiv> path_join outputs_path ''dupes_test.tsv''"
  defines "questions_path \<equiv> path_join outputs_path ''questions.tsv''"
  assumes miss: "\<not> (isfile w dupes_test_path \<and> isfile w questions_path)"
  shows "create_stack_overflow_data c clean_text lower round_sample_strat random_merge
           test_size min_text min_dupes match show_output w =
          (case download_datasets c show_output w of
             (Inl e, w) \<Rightarrow> (Inl e, w)
           | (Inr (answers, dupes, questions), w) \<Rightarrow>
               (case clean_data clean_text lower answers dupes min_dupes min_text questions
                       show_output of
                  Inl e \<Rightarrow> (Inl e, w)
                | Inr (dupes, label_column, questions) \<Rightarrow>
                    (case split_duplicates round_sample_strat random_merge dupes label_column
                            match questions show_output test_size of
                       Inl e \<Rightarrow> (Inl e, w)
                     | Inr (balanced_pairs_test, balanced_pairs_train, dupes_test) \<Rightarrow>
                         (case save_data c balanced_pairs_test balanced_pairs_train dupes_test
                                 dupes_test_path outputs_path questions questions_path
                                 show_output w of
                            (Inl e, w) \<Rightarrow> (Inl e, w)
                          | (Inr _, w) \<Rightarrow> (Inr (questions, dupes_test), w)))))"
proof -
  from miss have "(isfile w dupes_test_path \<and> isfile w questions_path) = False"
    by simp
  then show ?thesis
    unfolding create_stack_overflow_data_def Let_def
      outputs_path_def [symmetric] dupes_test_path_def [symmetric] questions_path_def [symmetric]
    by (simp only: if_False)
qed

lemma create_cache_miss:
  fixes c :: io and w :: world
    and random_merge :: "row list \<Rightarrow> row list \<Rightarrow> int \<Rightarrow> error + 'm merged_scheme list"
  defines "outputs_path \<equiv> directory c @ ''/data_folder''"
  defines "dupes_test_path \<equiv> path_join outputs_path ''dupes_test.tsv''"
  defines "questions_path \<equiv> path_join outputs_path ''questions.tsv''"
  assumes miss: "\<not> (isfile w dupes_test_path \<and> isfile w questions_path)"
  shows "create_stack_overflow_data c clean_text lower round_sample_strat random_merge
           test_size min_text min_dupes match show_output w = (Inr result, w') \<longleftrightarrow>
         (\<exists>answers dupes0 questions0 w1 dupes label_column questions
             balanced_pairs_test balanced_pairs_train dupes_test.
            download_datasets c show_output w = (Inr (answers, dupes0, questions0), w1)
          \<and> clean_data clean_text lower answers dupes0 min_dupes min_text questions0 show_output
               = Inr (dupes, label_column, questions)
          \<and> split_duplicates round_sample_strat random_merge dupes label_column match questions
               show_output test_size
               = Inr (balanced_pairs_test, balanced_pairs_train, dupes_test)
          \<and> save_data c balanced_pairs_test balanced_pairs_train dupes_test
               dupes_test_path outputs_path questions questions_path show_output w1 = (Inr (), w')
          \<and> result = (questions, dupes_test))"
  unfolding create_cache_miss_eq
    [OF miss [unfolded dupes_test_path_def questions_path_def outputs_path_def],
     folded outputs_path_def, folded dupes_test_path_def questions_path_def]
  by (auto split: prod.splits sum.splits)

lemma ex_paths:
  "path_join (directory ex_io @ ''/data_folder'') ''dupes_test.tsv'' = ''/tmp/data_folder/dupes_test.tsv''"
  "path_join (directory ex_io @ ''/data_folder'') ''questions.tsv'' = ''/tmp/data_folder/questions.tsv''"
  by code_simp+

lemma ex_cached_files:
  "isfile ex_world_cached ''/tmp/data_folder/dupes_test.tsv''"
  "isfile ex_world_cached ''/tmp/data_folder/questions.tsv''"
  "pd_read_csv ex_io 31 ex_world_cached ''/tmp/data_folder/questions.tsv'' = Inr [ex_q1, ex_q2]"
  "pd_read_csv ex_io 31 ex_world_cached ''/tmp/data_folder/dupes_test.tsv'' = Inr [ex_d5, ex_d8]"
  by code_simp+

lemma ex_empty_files:
  "\<not> isfile ex_world_empty ''/tmp/data_folder/dupes_test.tsv''"
  by code_simp

lemma ex_create_miss:
  "fst (create_stack_overflow_data ex_io ex_clean_text ex_lower ex_sampler ex_merge () 10 2 20 False
     ex_world_empty) = Inr ([ex_q1, ex_q2], [ex_d5, ex_d8])"
  by code_simp

lemma ex_download:
  "download_datasets ex_io False ex_world_empty
     = (Inr (ex_answers, ex_dupes, ex_questions),
        \<lparr>files = Map.empty, dirs = {},
         fetched = [data_url ''orig-q.tsv.gz'', data_url ''dup-q.tsv.gz'',
                    data_url ''ans.tsv.gz'']\<rparr>)"
  by (simp add: download_datasets_def ex_io_def ex_world_empty_def request_def data_url_def Let_def)

text \<open>
  Claim C8. When \<^verbatim>\<open>questions.tsv\<close> and \<^verbatim>\<open>dupes_test.tsv\<close> both exist on entry,
  \<^verbatim>\<open>create_stack_overflow_data\<close> leaves the world as it found it (no request, no file
  written) and its result is determined by \<^verbatim>\<open>pd.read_csv\<close> on the two files alone: the
  pair of the two loaded tables, questions first. Otherwise it returns a result exactly
  when the download, \<^verbatim>\<open>clean_data\<close>, \<^verbatim>\<open>split_duplicates\<close> and \<^verbatim>\<open>save_data\<close> all
  succeed, and the result is then the pair of the cleaned questions and the test dupes.
\<close>

theorem create_stack_overflow_data_cache:
  fixes c :: io and w :: world
    and random_merge :: "row list \<Rightarrow> row list \<Rightarrow> int \<Rightarrow> error + 'm merged_scheme list"
  defines "outputs_path \<equiv> directory c @ ''/data_folder''"
  defines "dupes_test_path \<equiv> path_join outputs_path ''dupes_test.tsv''"
  defines "questions_path \<equiv> path_join outputs_path ''questions.tsv''"
  shows "(isfile w dupes_test_path \<and> isfile w questions_path \<longrightarrow>
            create_stack_overflow_data c clean_text lower round_sample_strat random_merge
                test_size min_text min_dupes match show_output w =
              ((case pd_read_csv c 31 w questions_path of
                  Inl e \<Rightarrow> Inl e
                | Inr questions \<Rightarrow>
                    (case pd_read_csv c 31 w dupes_test_path of
                       Inl e \<Rightarrow> Inl e
                     | Inr dupes_test \<Rightarrow> Inr (questions, dupes_test))), w))
       \<and> (\<not> (isfile w dupes_test_path \<and> isfile w questions_path) \<longrightarrow>
            (\<forall>result w'.
               create_stack_overflow_data c clean_text lower round_sample_strat random_merge
                   test_size min_text min_dupes match show_output w = (Inr result, w') \<longleftrightarrow>
               (\<exists>answers dupes0 questions0 w1 dupes label_column questions
                   balanced_pairs_test balanced_pairs_train dupes_test.
                  download_datasets c show_output w = (Inr (answers, dupes0, questions0), w1)
                \<and> clean_data clean_text lower answers dupes0 min_dupes min_text questions0
                     show_output = Inr (dupes, label_column, questions)
                \<and> split_duplicates round_sample_strat random_merge dupes label_column match
                     questions show_output test_size
                     = Inr (balanced_pairs_test, balanced_pairs_train, dupes_test)
                \<and> save_data c balanced_pairs_test balanced_pairs_train dupes_test
                     dupes_test_path outputs_path questions questions_path show_output w1
                     = (Inr (), w')
                \<and> result = (questions, dupes_test))))"
  unfolding outputs_path_def dupes_test_path_def questions_path_def
proof (intro conjI impI allI)
  assume "isfile w (path_join (directory c @ ''/data_folder'') ''dupes_test.tsv'')
        \<and> isfile w (path_join (directory c @ ''/data_folder'') ''questions.tsv'')"
  then show "create_stack_overflow_data c clean_text lower round_sample_strat random_merge
                test_size min_text min_dupes match show_output w =
              ((case pd_read_csv c 31 w
                      (path_join (directory c @ ''/data_folder'') ''questions.tsv'') of
                  Inl e \<Rightarrow> Inl e
                | Inr questions \<Rightarrow>
                    (case pd_read_csv c 31 w
                            (path_join (directory c @ ''/data_folder'') ''dupes_test.tsv'') of
                       Inl e \<Rightarrow> Inl e
                     | Inr dupes_test \<Rightarrow> Inr (questions, dupes_test))), w)"
    by (intro create_cache_hit) simp_all
next
  fix result w'
  assume "\<not> (isfile w (path_join (directory c @ ''/data_folder'') ''dupes_test.tsv'')
           \<and> isfile w (path_join (directory c @ ''/data_folder'') ''questions.tsv''))"
  then show "create_stack_overflow_data c clean_text lower round_sample_strat random_merge
                   test_size min_text min_dupes match show_output w = (Inr result, w') \<longleftrightarrow>
               (\<exists>answers dupes0 questions0 w1 dupes label_column questions
                   balanced_pairs_test balanced_pairs_train dupes_test.
                  download_datasets c show_output w = (Inr (answers, dupes0, questions0), w1)
                \<and> clean_data clean_text lower answers dupes0 min_dupes min_text questions0
                     show_output = Inr (dupes, label_column, questions)
                \<and> split_duplicates round_sample_strat random_merge dupes label_column match
                     questions show_output test_size
                     = Inr (balanced_pairs_test, balanced_pairs_train, dupes_test)
                \<and> save_data c balanced_pairs_test balanced_pairs_train dupes_test
                     (path_join (directory c @ ''/data_folder'') ''dupes_test.tsv'')
                     (directory c @ ''/data_folder'') questions
                     (path_join (directory c @ ''/data_folder'') ''questions.tsv'') show_output w1
                     = (Inr (), w')
                \<and> result = (questions, dupes_test))"
    by (rule create_cache_miss)
qed

theorem create_stack_overflow_data_cache_witness:
  "create_stack_overflow_data ex_io ex_clean_text ex_lower ex_sampler ex_merge () 10 2 20 False
       ex_world_cached = (Inr ([ex_q1, ex_q2], [ex_d5, ex_d8]), ex_world_cached)
   \<and> (\<exists>w1 w'.
        download_datasets ex_io False ex_world_empty = (Inr (ex_answers, ex_dupes, ex_questions), w1)
      \<and> save_data ex_io
           [ex_pair ex_d5 ex_q1 1, ex_pair ex_d5 ex_q2 0, ex_pair ex_d8 ex_q2 1, ex_pair ex_d8 ex_q1 0]
           [ex_pair ex_d6 ex_q1 1, ex_pair ex_d6 ex_q2 0, ex_pair ex_d9 ex_q2 1, ex_pair ex_d9 ex_q1 0]
           [ex_d5, ex_d8] ''/tmp/data_folder/dupes_test.tsv'' ''/tmp/data_folder''
           [ex_q1, ex_q2] ''/tmp/data_folder/questions.tsv'' False w1 = (Inr (), w')
      \<and> create_stack_overflow_data ex_io ex_clean_text ex_lower ex_sampler ex_merge () 10 2 20 False
           ex_world_empty = (Inr ([ex_q1, ex_q2], [ex_d5, ex_d8]), w'))"
proof -
  note inst = create_stack_overflow_data_cache
    [of _ ex_io ex_clean_text ex_lower ex_sampler ex_merge "()" 10 2 20 False, unfolded ex_paths]
  have hit: "create_stack_overflow_data ex_io ex_clean_text ex_lower ex_sampler ex_merge () 10 2 20
       False ex_world_cached = (Inr ([ex_q1, ex_q2], [ex_d5, ex_d8]), ex_world_cached)"
    using inst [of ex_world_cached] ex_cached_files by simp
  obtain r w' where e: "create_stack_overflow_data ex_io ex_clean_text ex_lower ex_sampler ex_merge ()
       10 2 20 False ex_world_empty = (r, w')"
    by (cases "create_stack_overflow_data ex_io ex_clean_text ex_lower ex_sampler ex_merge ()
       10 2 20 False ex_world_empty") blast
  with ex_create_miss have r: "r = Inr ([ex_q1, ex_q2], [ex_d5, ex_d8])"
    by simp
  from e r have e': "create_stack_overflow_data ex_io ex_clean_text ex_lower ex_sampler ex_merge ()
       10 2 20 False ex_world_empty = (Inr ([ex_q1, ex_q2], [ex_d5, ex_d8]), w')"
    by simp
  have miss: "\<not> (isfile ex_world_empty ''/tmp/data_folder/dupes_test.tsv''
                \<and> isfile ex_world_empty ''/tmp/data_folder/questions.tsv'')"
    using ex_empty_files by simp
  note stages = inst [of ex_world_empty, THEN conjunct2, THEN mp, OF miss, THEN spec, THEN spec,
      THEN iffD1, OF e']
  from stages
  obtain answers dupes0 questions0 w1 dupes label_column questions
         balanced_pairs_test balanced_pairs_train dupes_test
    where d: "download_datasets ex_io False ex_world_empty = (Inr (answers, dupes0, questions0), w1)"
      and cl: "clean_data ex_clean_text ex_lower answers dupes0 2 10 questions0 False
                 = Inr (dupes, label_column, questions)"
      and sp: "split_duplicates ex_sampler ex_merge dupes label_column 20 questions False ()
                 = Inr (balanced_pairs_test, balanced_pairs_train, dupes_test)"
      and sv: "save_data ex_io balanced_pairs_test balanced_pairs_train dupes_test
                 ''/tmp/data_folder/dupes_test.tsv'' (directory ex_io @ ''/data_folder'') questions
                 ''/tmp/data_folder/questions.tsv'' False w1 = (Inr (), w')"
    by blast
  from d ex_download have t: "answers = ex_answers" "dupes0 = ex_dupes" "questions0 = ex_questions"
    by simp_all
  from cl ex_clean_data have c: "dupes = [ex_d5, ex_d6, ex_d8, ex_d9]" "questions = [ex_q1, ex_q2]"
      "label_column = ''AnswerId''"
    unfolding t by simp_all
  from sp ex_split_duplicates have s:
    "balanced_pairs_test = [ex_pair ex_d5 ex_q1 1, ex_pair ex_d5 ex_q2 0, ex_pair ex_d8 ex_q2 1, ex_pair ex_d8 ex_q1 0]"
    "balanced_pairs_train = [ex_pair ex_d6 ex_q1 1, ex_pair ex_d6 ex_q2 0, ex_pair ex_d9 ex_q2 1, ex_pair ex_d9 ex_q1 0]"
    "dupes_test = [ex_d5, ex_d8]"
    unfolding c by simp_all
  have dir: "directory ex_io @ ''/data_folder'' = ''/tmp/data_folder''"
    by (simp add: ex_io_def)
  from hit d sv e r show ?thesis
    unfolding t c s dir by blast
qed

end
